theory Spec2Isabelle
  imports Complex_Main "HOL-Library.AList" "HOL-Library.Log_Nat"
begin

section \<open>Values, errors and the network\<close>

text \<open>
  JavaScript values as far as the two front ends handle them. \<open>JNum\<close> holds the finite
  numbers, \<open>JNaN\<close> is \<open>NaN\<close>, \<open>JPosInf\<close> and \<open>JNegInf\<close> are the two infinities; an
  object is the list of its own properties in insertion order, each name once.
\<close>

datatype jsval =
    JUndefined
  | JNull
  | JBool bool
  | JNum real
  | JNaN
  | JPosInf
  | JNegInf
  | JStr string
  | JArr "jsval list"
  | JObj "(string \<times> jsval) list"

text \<open>The values whose \<open>typeof\<close> is \<open>number\<close>.\<close>

fun is_number :: "jsval \<Rightarrow> bool" where
  "is_number (JNum r) = True"
| "is_number JNaN = True"
| "is_number JPosInf = True"
| "is_number JNegInf = True"
| "is_number v = False"

text \<open>
  A thrown exception is carried as \<open>Inl\<close> of its \<open>message\<close>; an awaited promise that
  rejects is the same. \<open>js_error\<close> names the exceptions of code that runs outside a
  \<open>try\<close> block.
\<close>

datatype js_error = TypeError | RangeError

type_synonym 'a outcome = "string + 'a"

record 'a response =
  ok :: bool
  body_text :: "string outcome"
  body_json :: "'a outcome"

record 'b request =
  url :: string
  http_method :: string
  headers :: "(string \<times> string) list"
  body :: "'b option"

text \<open>\<open>throw new Error(await res.text())\<close>: the message thrown for a response.\<close>

definition error_text :: "'a response \<Rightarrow> string" where
  "error_text res = (case body_text res of Inl e \<Rightarrow> e | Inr txt \<Rightarrow> txt)"

text \<open>
  Both front ends keep a \<open>loading\<close> flag and a \<open>toast\<close> \<open>{msg, type}\<close>. The type is a
  string, except where the code passes the caught error object in its place. The timer
  that clears the toast after 3 s is not modelled.
\<close>

datatype toast_type = TypeName string | ErrorObject string

record toast_rec =
  msg :: jsval
  type :: toast_type

record ui =
  loading :: bool
  toast :: "toast_rec option"

section \<open>Checkout flow\<close>

text \<open>
  What the checkout flow takes from the platform: the configured \<open>API_BASE\<close>,
  \<open>Date.prototype.toISOString\<close> on a time value in milliseconds,
  \<open>encodeURIComponent\<close>, the string conversion of template literals, \<open>JSON.parse\<close>
  (\<open>Inl\<close> is the message of its SyntaxError) and the message of the TypeError that
  reading a property of \<open>null\<close> raises.
\<close>

record platform =
  API_BASE :: string
  toISOString :: "int \<Rightarrow> string"
  encodeURIComponent :: "string \<Rightarrow> string"
  toStr :: "jsval \<Rightarrow> string"
  jsonParse :: "string \<Rightarrow> jsval outcome"
  nullPropertyMessage :: "string \<Rightarrow> string"

type_synonym net = "jsval request \<Rightarrow> jsval response outcome"

fun truthy :: "jsval \<Rightarrow> bool" where
  "truthy JUndefined = False"
| "truthy JNull = False"
| "truthy (JBool b) = b"
| "truthy (JNum r) = (r \<noteq> 0)"
| "truthy JNaN = False"
| "truthy JPosInf = True"
| "truthy JNegInf = True"
| "truthy (JStr s) = (s \<noteq> [])"
| "truthy (JArr xs) = True"
| "truthy (JObj kvs) = True"

definition nullish :: "jsval \<Rightarrow> bool" where
  "nullish v = (v = JUndefined \<or> v = JNull)"

text \<open>
  Reading property \<open>k\<close> of a value that is neither \<open>null\<close> nor \<open>undefined\<close>. The code
  reads \<open>length\<close> and names of the API's JSON objects only.
\<close>

fun get :: "jsval \<Rightarrow> string \<Rightarrow> jsval" where
  "get (JObj kvs) k = (case map_of kvs k of Some v \<Rightarrow> v | None \<Rightarrow> JUndefined)"
| "get (JArr xs) k = (if k = ''length'' then JNum (real (length xs)) else JUndefined)"
| "get (JStr s) k = (if k = ''length'' then JNum (real (length s)) else JUndefined)"
| "get v k = JUndefined"

text \<open>\<open>v.k\<close> throws on \<open>null\<close> and \<open>undefined\<close>; \<open>v?.k\<close> gives \<open>undefined\<close> there.\<close>

definition member :: "platform \<Rightarrow> jsval \<Rightarrow> string \<Rightarrow> jsval outcome" where
  "member P v k = (if nullish v then Inl (nullPropertyMessage P k) else Inr (get v k))"

definition opt_member :: "jsval \<Rightarrow> string \<Rightarrow> jsval" where
  "opt_member v k = (if nullish v then JUndefined else get v k)"

definition or_else :: "jsval \<Rightarrow> jsval \<Rightarrow> jsval" where
  "or_else v d = (if truthy v then v else d)"

subsection \<open>Quantities\<close>

text \<open>
  A quantity in \<open>items\<close> is a JavaScript number, that is a double: the initial values
  are integer literals and the editors produce \<open>parseInt\<close> results, \<open>Math.max\<close> of
  them and steps of one, so it is an integer-valued double, \<open>NaN\<close> or an infinity.
  \<open>Qty n\<close> is the double of value \<open>n\<close>.
\<close>

datatype qty = Qty int | QNaN | QInf | QNegInf

text \<open>
  The double nearest to an integer, ties to the even significand; an integer beyond the
  range of the doubles gives an infinity. Integers below \<open>2^53\<close> in size are doubles
  themselves.
\<close>

definition round_double :: "int \<Rightarrow> qty" where
  "round_double n =
     (let a = \<bar>n\<bar>
      in if a < 2 ^ 53 then Qty n
         else
           (let e = nat (bitlen a) - 53;
                q = a div 2 ^ e;
                r = a mod 2 ^ e;
                q' = (if 2 ^ e < 2 * r \<or> (2 * r = 2 ^ e \<and> odd q) then q + 1 else q);
                v = q' * 2 ^ e
            in if 2 ^ 1024 \<le> v then (if n < 0 then QNegInf else QInf)
               else Qty (if n < 0 then - v else v)))"

definition is_white :: "char \<Rightarrow> bool" where
  "is_white c = ((of_char c :: nat) \<in> {9, 10, 11, 12, 13, 32})"

definition is_digit :: "char \<Rightarrow> bool" where
  "is_digit c = (48 \<le> (of_char c :: nat) \<and> (of_char c :: nat) \<le> 57)"

definition digits_value :: "string \<Rightarrow> int" where
  "digits_value ds = fold (\<lambda>c n. 10 * n + (int (of_char c) - 48)) ds 0"

text \<open>
  \<open>parseInt(s, 10)\<close>: leading white space (here the ASCII white space, a string being
  a list of bytes) and one sign are skipped, the longest prefix of decimal digits is
  read, and no digit at all gives \<open>NaN\<close>. The result is the
  double of the integer read (past 20 significant digits the standard lets an engine
  round the digits first; here the integer is rounded as it stands).
\<close>

definition parseInt :: "string \<Rightarrow> qty" where
  "parseInt s =
     (let S = dropWhile is_white s;
          neg = (S \<noteq> [] \<and> hd S = CHR ''-'');
          S' = (if S \<noteq> [] \<and> (hd S = CHR ''+'' \<or> hd S = CHR ''-'') then tl S else S);
          Z = takeWhile is_digit S'
      in if Z = [] then QNaN
         else round_double ((if neg then - 1 else 1) * digits_value Z))"

text \<open>
  \<open>Math.max(0, x)\<close>, \<open>x || 0\<close> on a property that may be missing, \<open>x + k\<close> for an
  integer literal \<open>k\<close>, and \<open>x > 0\<close>.
\<close>

fun Math_max0 :: "qty \<Rightarrow> qty" where
  "Math_max0 QNaN = QNaN"
| "Math_max0 QInf = QInf"
| "Math_max0 QNegInf = Qty 0"
| "Math_max0 (Qty n) = Qty (max 0 n)"

fun or0 :: "qty option \<Rightarrow> qty" where
  "or0 None = Qty 0"
| "or0 (Some QNaN) = Qty 0"
| "or0 (Some q) = q"

fun add_literal :: "qty \<Rightarrow> int \<Rightarrow> qty" where
  "add_literal (Qty n) k = round_double (n + k)"
| "add_literal q k = q"

fun gt0 :: "qty \<Rightarrow> bool" where
  "gt0 QNaN = False"
| "gt0 QInf = True"
| "gt0 QNegInf = False"
| "gt0 (Qty n) = (0 < n)"

fun js_of_qty :: "qty \<Rightarrow> jsval" where
  "js_of_qty QNaN = JNaN"
| "js_of_qty QInf = JPosInf"
| "js_of_qty QNegInf = JNegInf"
| "js_of_qty (Qty n) = JNum (of_int n)"

subsection \<open>State and actions\<close>

record iso_range =
  fromISO :: string
  toISO :: string

record app_state = ui +
  step :: nat
  cartId :: jsval
  items :: "(string \<times> qty) list"
  pos :: "real \<times> real"
  slots :: jsval
  selectedSlotId :: jsval
  quote :: jsval

definition initial_items :: "(string \<times> qty) list" where
  "initial_items = [(''p_1'', Qty 2), (''p_2'', Qty 1), (''p_3'', Qty 0)]"

definition initial_state :: app_state where
  "initial_state =
     \<lparr>loading = False, toast = None, step = 1, cartId = JNull, items = initial_items,
      pos = (60.1699, 24.9384), slots = JArr [], selectedSlotId = JNull, quote = JNull\<rparr>"

text \<open>
  \<open>useNowIsoRange(days)\<close>, computed from the clock reading \<open>now\<close>. A \<open>Date\<close> holds a
  time value of at most 8.64e15 ms either side of the epoch and \<open>toISOString\<close> throws a
  RangeError on any other.
\<close>

definition valid_time :: "int \<Rightarrow> bool" where
  "valid_time t = (\<bar>t\<bar> \<le> 8640000000000000)"

definition useNowIsoRange :: "platform \<Rightarrow> int \<Rightarrow> int \<Rightarrow> js_error + iso_range" where
  "useNowIsoRange P days now =
     (let to = now + days * 86400000
      in if valid_time now \<and> valid_time to
         then Inr \<lparr>fromISO = toISOString P now, toISO = toISOString P to\<rparr>
         else Inl RangeError)"

definition notify :: "jsval \<Rightarrow> toast_type \<Rightarrow> app_state \<Rightarrow> app_state" where
  "notify m t st = st\<lparr>toast := Some \<lparr>msg = m, type = t\<rparr>\<rparr>"

definition resetAll :: "app_state \<Rightarrow> app_state" where
  "resetAll st =
     st\<lparr>step := 1, cartId := JNull, items := initial_items, pos := (60.1699, 24.9384),
        slots := JArr [], selectedSlotId := JNull, quote := JNull\<rparr>"

definition post_json :: "platform \<Rightarrow> string \<Rightarrow> jsval \<Rightarrow> jsval request" where
  "post_json P path b =
     \<lparr>url = API_BASE P @ path, http_method = ''POST'',
      headers = [(''Content-Type'', ''application/json'')], body = Some b\<rparr>"

text \<open>
  Every action returns the requests it sent, in order, and the state once its
  \<open>finally\<close> block has run. The \<open>try\<close> block of an action returns, besides these,
  the message of the exception it threw, if any.
\<close>

text \<open>\<open>createCart()\<close>.\<close>

definition cart_lines :: "(string \<times> qty) list \<Rightarrow> (string \<times> qty) list" where
  "cart_lines its = filter (\<lambda>(productId, q). gt0 q) its"

definition cart_body :: "(string \<times> qty) list \<Rightarrow> jsval" where
  "cart_body its =
     JObj [(''items'',
       JArr (map (\<lambda>(productId, q). JObj [(''productId'', JStr productId), (''qty'', js_of_qty q)])
              (cart_lines its)))]"

definition createCart_try ::
  "platform \<Rightarrow> net \<Rightarrow> app_state \<Rightarrow> jsval request list \<times> app_state \<times> string option" where
  "createCart_try P net st =
     (let req = post_json P ''/cart'' (cart_body (items st))
      in case net req of
           Inl e \<Rightarrow> ([req], st, Some e)
         | Inr res \<Rightarrow>
             if \<not> ok res then ([req], st, Some (error_text res))
             else
               (case body_json res of
                  Inl e \<Rightarrow> ([req], st, Some e)
                | Inr data \<Rightarrow>
                    (case member P data ''cartId'' of
                       Inl e \<Rightarrow> ([req], st, Some e)
                     | Inr c \<Rightarrow>
                         ([req],
                          (notify (JStr ''Cart created.'') (TypeName ''success'')
                             (st\<lparr>cartId := c\<rparr>))\<lparr>step := 2\<rparr>,
                          None))))"

definition createCart :: "platform \<Rightarrow> net \<Rightarrow> app_state \<Rightarrow> jsval request list \<times> app_state" where
  "createCart P net st =
     (let st1 = st\<lparr>loading := True\<rparr>
      in if cart_lines (items st) = [] then
           ([], (notify (JStr ''Add at least one product.'') (TypeName ''error'') st1)
                  \<lparr>loading := False\<rparr>)
         else
           (case createCart_try P net st1 of
              (reqs, st2, None) \<Rightarrow> (reqs, st2\<lparr>loading := False\<rparr>)
            | (reqs, st2, Some e) \<Rightarrow>
                (reqs, (notify (JStr ''Failed to create cart'') (ErrorObject e) st2)
                         \<lparr>loading := False\<rparr>)))"

text \<open>\<open>fetchSlots()\<close>; \<open>rng\<close> is the memoised range of \<open>useNowIsoRange(3)\<close>.\<close>

definition slots_url :: "platform \<Rightarrow> iso_range \<Rightarrow> app_state \<Rightarrow> string" where
  "slots_url P rng st =
     API_BASE P @ ''/delivery/slots?cartId='' @ toStr P (cartId st)
       @ ''&lat='' @ toStr P (JNum (fst (pos st)))
       @ ''&lon='' @ toStr P (JNum (snd (pos st)))
       @ ''&fromISO='' @ encodeURIComponent P (fromISO rng)
       @ ''&toISO='' @ encodeURIComponent P (toISO rng)"

definition fetchSlots_try ::
  "platform \<Rightarrow> net \<Rightarrow> iso_range \<Rightarrow> app_state \<Rightarrow>
   jsval request list \<times> app_state \<times> string option" where
  "fetchSlots_try P net rng st =
     (let req = \<lparr>url = slots_url P rng st, http_method = ''GET'', headers = [], body = None\<rparr>
      in case net req of
           Inl e \<Rightarrow> ([req], st, Some e)
         | Inr res \<Rightarrow>
             if \<not> ok res then ([req], st, Some (error_text res))
             else
               (case body_json res of
                  Inl e \<Rightarrow> ([req], st, Some e)
                | Inr data \<Rightarrow>
                    (case member P data ''slots'' of
                       Inl e \<Rightarrow> ([req], st, Some e)
                     | Inr sl \<Rightarrow>
                         ([req],
                          notify
                            (JStr (''Loaded ''
                               @ toStr P (or_else (opt_member sl ''length'') (JNum 0))
                               @ '' slots.''))
                            (TypeName ''success'')
                            (st\<lparr>slots := or_else sl (JArr []), selectedSlotId := JNull\<rparr>),
                          None))))"

definition fetchSlots ::
  "platform \<Rightarrow> net \<Rightarrow> iso_range \<Rightarrow> app_state \<Rightarrow> jsval request list \<times> app_state" where
  "fetchSlots P net rng st =
     (if \<not> truthy (cartId st) then
        ([], notify (JStr ''Create a cart first.'') (TypeName ''error'') st)
      else
        (case fetchSlots_try P net rng (st\<lparr>loading := True\<rparr>) of
           (reqs, st2, None) \<Rightarrow> (reqs, st2\<lparr>loading := False\<rparr>)
         | (reqs, st2, Some e) \<Rightarrow>
             (reqs, (notify (JStr ''Failed to fetch slots'') (ErrorObject e) st2)
                      \<lparr>loading := False\<rparr>)))"

text \<open>\<open>quoteAndPay(slotId)\<close>: its \<open>try\<close> block, its \<open>catch\<close> block and the whole.\<close>

definition quoteAndPay_try ::
  "platform \<Rightarrow> net \<Rightarrow> jsval \<Rightarrow> app_state \<Rightarrow>
   jsval request list \<times> app_state \<times> string option" where
  "quoteAndPay_try P net slotId st =
     (let reqQ = post_json P ''/checkout/quote''
                   (JObj [(''cartId'', cartId st), (''slotId'', slotId),
                          (''lat'', JNum (fst (pos st))), (''lon'', JNum (snd (pos st)))])
      in (case net reqQ of
            Inl e \<Rightarrow> ([reqQ], st, Some e)
          | Inr resQ \<Rightarrow>
             (case body_text resQ of
                Inl e \<Rightarrow> ([reqQ], st, Some e)
              | Inr txt \<Rightarrow>
                 (if \<not> ok resQ then ([reqQ], st, Some txt)
                  else
                    (case jsonParse P txt of
                       Inl e \<Rightarrow> ([reqQ], st, Some e)
                     | Inr q \<Rightarrow>
                        (let st2 = st\<lparr>selectedSlotId := slotId, quote := q\<rparr>
                         in (case member P q ''quoteId'' of
                               Inl e \<Rightarrow> ([reqQ], st2, Some e)
                             | Inr quoteId \<Rightarrow>
                                (let reqP = post_json P ''/payments/create''
                                              (JObj [(''quoteId'', quoteId)])
                                 in (case net reqP of
                                       Inl e \<Rightarrow> ([reqQ, reqP], st2, Some e)
                                     | Inr resP \<Rightarrow>
                                        (if \<not> ok resP
                                         then ([reqQ, reqP], st2, Some (error_text resP))
                                         else
                                           (let reqW = post_json P ''/webhooks/payment''
                                                         (JObj [(''event'', JStr ''payment_succeeded''),
                                                                (''quoteId'', quoteId)])
                                            in (case net reqW of
                                                  Inl e \<Rightarrow> ([reqQ, reqP, reqW], st2, Some e)
                                                | Inr resW \<Rightarrow>
                                                   (if \<not> ok resW
                                                    then ([reqQ, reqP, reqW], st2,
                                                          Some (error_text resW))
                                                    else
                                                      ([reqQ, reqP, reqW],
                                                       (notify
                                                          (JStr (''Order confirmed! ''
                                                             @ [CHR 0xF0, CHR 0x9F, CHR 0x8E, CHR 0x89]))
                                                          (TypeName ''success'') st2)\<lparr>step := 4\<rparr>,
                                                       None))))))))))))))"

definition quoteAndPay_catch :: "platform \<Rightarrow> string \<Rightarrow> app_state \<Rightarrow> app_state" where
  "quoteAndPay_catch P message st =
     (case jsonParse P message of
        Inl e \<Rightarrow> notify (JStr ''Quote/payment failed.'') (TypeName ''error'') st
      | Inr detail \<Rightarrow>
          if opt_member (opt_member detail ''detail'') ''error'' = JStr ''SOLO_MIN_UNITS_REQUIRED''
          then notify (get (get detail ''detail'') ''message'') (TypeName ''warn'') st
          else notify (JStr ''Quote/payment failed.'') (TypeName ''error'') st)"

definition quoteAndPay ::
  "platform \<Rightarrow> net \<Rightarrow> jsval \<Rightarrow> app_state \<Rightarrow> jsval request list \<times> app_state" where
  "quoteAndPay P net slotId st =
     (if \<not> truthy (cartId st) then
        ([], notify (JStr ''Create a cart first.'') (TypeName ''error'') st)
      else
        (case quoteAndPay_try P net slotId (st\<lparr>loading := True\<rparr>) of
           (reqs, st2, None) \<Rightarrow> (reqs, st2\<lparr>loading := False\<rparr>)
         | (reqs, st2, Some e) \<Rightarrow> (reqs, (quoteAndPay_catch P e st2)\<lparr>loading := False\<rparr>)))"




subsection \<open>The quantity editors of the product gallery\<close>

text \<open>
  The three handlers of one product row, as the updaters they pass to \<open>setItems\<close>:
  the minus button, the number input (with \<open>e.target.value\<close>) and the plus button.
  \<open>{...s, [id]: v}\<close> replaces the property in place or appends it.
\<close>

definition minus_click :: "string \<Rightarrow> (string \<times> qty) list \<Rightarrow> (string \<times> qty) list" where
  "minus_click pid s = AList.update pid (Math_max0 (add_literal (or0 (map_of s pid)) (- 1))) s"

definition input_change :: "string \<Rightarrow> string \<Rightarrow> (string \<times> qty) list \<Rightarrow> (string \<times> qty) list" where
  "input_change pid target_value s =
     AList.update pid
       (Math_max0 (parseInt (if target_value = '''' then ''0'' else target_value))) s"

definition plus_click :: "string \<Rightarrow> (string \<times> qty) list \<Rightarrow> (string \<times> qty) list" where
  "plus_click pid s = AList.update pid (add_literal (or0 (map_of s pid)) 1) s"

subsection \<open>The solo-minimum hint of a slot card\<close>

text \<open>
  What React shows for \<open>{s.requiresSoloMinUnits && (<div className="warn">...</div>)}\<close>:
  the element when the flag is truthy, otherwise the flag itself, of which booleans,
  \<open>null\<close>, \<open>undefined\<close> and the empty string show nothing.
\<close>

datatype node = Text string | Expr jsval | Elem string string "node list"

fun shown :: "jsval \<Rightarrow> node list" where
  "shown JUndefined = []"
| "shown JNull = []"
| "shown (JBool b) = []"
| "shown (JStr s) = (if s = [] then [] else [Text s])"
| "shown v = [Expr v]"

definition slot_hint :: "platform \<Rightarrow> jsval \<Rightarrow> node list outcome" where
  "slot_hint P s =
     (case member P s ''requiresSoloMinUnits'' of
        Inl e \<Rightarrow> Inl e
      | Inr flag \<Rightarrow>
          if truthy flag then
            Inr [Elem ''div'' ''warn''
                  [Text ''No nearby deliveries. Minimum '', Expr (get s ''soloMinUnits''),
                   Text '' units for this slot.'']]
          else Inr (shown flag))"

text \<open>
  \<open>const { fromISO, toISO } = useNowIsoRange(3)\<close> in \<open>App\<close>: the range every
  \<open>fetchSlots\<close> of the component uses, with \<open>now\<close> the clock reading when the memo
  was computed.
\<close>

definition App_range :: "platform \<Rightarrow> int \<Rightarrow> js_error + iso_range" where
  "App_range P now = useNowIsoRange P 3 now"

text \<open>The property names of the object a request was built from.\<close>

definition field_names :: "jsval request \<Rightarrow> string list" where
  "field_names r = (case body r of Some (JObj kvs) \<Rightarrow> map fst kvs | _ \<Rightarrow> [])"

text \<open>What it is for a quantity to be a non-negative integer.\<close>

fun nonneg_int :: "qty \<Rightarrow> bool" where
  "nonneg_int (Qty n) = (0 \<le> n)"
| "nonneg_int q = False"

text \<open>The non-negative integers below \<open>2^53\<close>, on which a step of one is exact.\<close>

fun safe_count :: "qty \<Rightarrow> bool" where
  "safe_count (Qty n) = (0 \<le> n \<and> n < 2 ^ 53)"
| "safe_count q = False"

section \<open>Admin console\<close>

text \<open>The weekday table of the admin console: pairs of \<open>value\<close> and \<open>label\<close>.\<close>

definition weekdayMap :: "(int \<times> string) list" where
  "weekdayMap =
     [(1, ''Mon''), (2, ''Tue''), (3, ''Wed''), (4, ''Thu''),
      (5, ''Fri''), (6, ''Sat''), (7, ''Sun'')]"

record window =
  daysOfWeek :: "int list"
  startTime :: string
  endTime :: string

text \<open>
  The settings object maps property names to values: the scoring parameters are scalars,
  \<open>availability\<close> is the array of windows.
\<close>

datatype sval = Scalar jsval | Windows "window list"

type_synonym settings = "string \<rightharpoonup> sval"

record admin_state = ui +
  settings :: "settings option"
  saving :: bool
  error :: "string option"

definition showToast :: "string \<Rightarrow> string \<Rightarrow> admin_state \<Rightarrow> admin_state" where
  "showToast m t st = st\<lparr>toast := Some \<lparr>msg = JStr m, type = TypeName t\<rparr>\<rparr>"

text \<open>The object spread \<open>{...prev}\<close>: spreading \<open>null\<close> gives the empty object.\<close>

definition spread :: "settings option \<Rightarrow> settings" where
  "spread prev = (case prev of None \<Rightarrow> Map.empty | Some s \<Rightarrow> s)"

text \<open>
  \<open>updateNumber(field, value)\<close>, as the updater it passes to \<open>setSettings\<close>. The
  platform's \<open>Number\<close> conversion is a parameter.
\<close>

definition updateNumber ::
  "(string \<Rightarrow> jsval) \<Rightarrow> string \<Rightarrow> string \<Rightarrow> settings option \<Rightarrow> settings" where
  "updateNumber Number field val prev =
     (let num = (if val = '''' then JStr '''' else Number val)
      in (spread prev)(field \<mapsto> Scalar num))"

text \<open>
  A JavaScript \<open>Set\<close> keeps its elements in insertion order without repetition:
  \<open>new Set(xs)\<close> adds the elements of \<open>xs\<close> one by one.
\<close>

definition set_has :: "int list \<Rightarrow> int \<Rightarrow> bool" where
  "set_has s x = (x \<in> set s)"

definition set_add :: "int \<Rightarrow> int list \<Rightarrow> int list" where
  "set_add x s = (if set_has s x then s else s @ [x])"

definition set_delete :: "int \<Rightarrow> int list \<Rightarrow> int list" where
  "set_delete x s = removeAll x s"

definition new_Set :: "int list \<Rightarrow> int list" where
  "new_Set xs = fold set_add xs []"

text \<open>
  \<open>toggleDay(index, dayValue)\<close>, as the updater it passes to \<open>setSettings\<close>.
  \<open>prev.availability\<close> on \<open>null\<close>, spreading something that is not the window array and
  \<open>next[index].daysOfWeek\<close> past the end all throw a TypeError. The comparator
  \<open>(a, b) => a - b\<close> sorts numbers in ascending order.
\<close>

definition toggleDay :: "nat \<Rightarrow> int \<Rightarrow> settings option \<Rightarrow> js_error + settings" where
  "toggleDay index dayValue prev =
     (case prev of
        None \<Rightarrow> Inl TypeError
      | Some p \<Rightarrow>
          (case p ''availability'' of
             Some (Windows next) \<Rightarrow>
               if index < length next then
                 let current = new_Set (daysOfWeek (next ! index));
                     current' = (if set_has current dayValue
                                 then set_delete dayValue current
                                 else set_add dayValue current)
                 in Inr (p(''availability'' \<mapsto>
                      Windows (next[index := (next ! index)\<lparr>daysOfWeek := sort current'\<rparr>])))
               else Inl TypeError
           | _ \<Rightarrow> Inl TypeError))"

text \<open>
  The shape the console keeps for \<open>daysOfWeek\<close>: ascending, without repetition,
  every entry a weekday number from 1 to 7.
\<close>

definition valid_days :: "int list \<Rightarrow> bool" where
  "valid_days ds = (sorted ds \<and> distinct ds \<and> list_all (\<lambda>d. 1 \<le> d \<and> d \<le> 7) ds)"

text \<open>
  \<open>saveSettings()\<close>. The body handed to \<open>JSON.stringify\<close> is the settings object
  itself. The function returns the requests it sent and the state after \<open>finally\<close>.
\<close>

definition put_settings :: "string \<Rightarrow> settings \<Rightarrow> settings request" where
  "put_settings api s =
     \<lparr>url = api @ ''/settings'', http_method = ''PUT'',
      headers = [(''Content-Type'', ''application/json'')], body = Some s\<rparr>"

definition saveSettings_try ::
  "(settings request \<Rightarrow> (settings option) response outcome) \<Rightarrow> settings request \<Rightarrow>
   admin_state \<Rightarrow> admin_state outcome" where
  "saveSettings_try net req st =
     (case net req of
        Inl e \<Rightarrow> Inl e
      | Inr res \<Rightarrow>
          if \<not> ok res then
            (case body_text res of Inl e \<Rightarrow> Inl e | Inr txt \<Rightarrow> Inl txt)
          else
            (case body_json res of
               Inl e \<Rightarrow> Inl e
             | Inr data \<Rightarrow>
                 Inr (showToast (''Settings saved successfully '' @ [CHR 0xE2, CHR 0x9C, CHR 0x85])
                        ''success'' (st\<lparr>settings := data\<rparr>))))"

definition saveSettings ::
  "string \<Rightarrow> (settings request \<Rightarrow> (settings option) response outcome) \<Rightarrow>
   admin_state \<Rightarrow> settings request list \<times> admin_state" where
  "saveSettings api net st =
     (case settings st of
        None \<Rightarrow> ([], st)
      | Some s \<Rightarrow>
          let st1 = st\<lparr>saving := True, error := None\<rparr>;
              req = put_settings api s;
              st2 = (case saveSettings_try net req st1 of
                       Inr st' \<Rightarrow> st'
                     | Inl e \<Rightarrow>
                         showToast (''Failed to save settings '' @ [CHR 0xE2, CHR 0x9D, CHR 0x8C])
                           ''error'' (st1\<lparr>error := Some ''Failed to save settings''\<rparr>))
          in ([req], st2\<lparr>saving := False\<rparr>))"

section \<open>Engine operations behind the API\<close>

text \<open>
  The front ends call an engine whose code is not among the sources. Its two operations
  that the properties below need follow the wording of the specification; numbers are
  real numbers there, with no rounding.
\<close>

text \<open>
  Modelled from the spec: the confirmation state of a Quote, \<open>{pending, confirmed}\<close>, and
  the error of an unknown quote id. Both are missing from the sources.
\<close>

datatype confirmation = Pending | Confirmed

datatype engine_error = NotFound

text \<open>
  Modelled from the spec: the Quote of the data model, missing from the sources: the
  referenced cart, slot and location, the amounts snapshot, \<open>lockedUntil\<close> and the
  confirmation state.
\<close>

record amounts =
  subtotalCents :: int
  deliveryFeeCents :: int
  discountCents :: int
  totalCents :: int

record quote_rec =
  ofCart :: string
  ofSlot :: string
  ofLocation :: string
  quoted :: amounts
  lockedUntil :: int
  state :: confirmation

text \<open>
  Modelled from the spec: the state the Capacity and Confirmation Ledger works on, missing
  from the sources: the stored quotes by quote id and the \<open>used\<close> capacity of every slot.
\<close>

record ledger =
  quotes :: "string \<rightharpoonup> quote_rec"
  used :: "string \<Rightarrow> nat"

text \<open>
  Modelled from the spec: the operation \<open>confirm(quoteId)\<close> of the Capacity and
  Confirmation Ledger, the handler behind \<open>POST /webhooks/payment\<close>, which is missing
  from the sources. It looks up the quote and fails with NotFound if the id is unknown; an
  already confirmed quote returns success without side effects; a pending quote has the
  \<open>used\<close> capacity of its slot incremented and its state flipped to confirmed. The
  amount of one confirmation (the delivery-unit count of the cart, or one) is the
  parameter \<open>units\<close>.
\<close>

definition confirm :: "(quote_rec \<Rightarrow> nat) \<Rightarrow> string \<Rightarrow> ledger \<Rightarrow> engine_error + ledger" where
  "confirm units quoteId L =
     (case quotes L quoteId of
        None \<Rightarrow> Inl NotFound
      | Some q \<Rightarrow>
          if state q = Confirmed then Inr L
          else Inr (L\<lparr>used := (used L)(ofSlot q := used L (ofSlot q) + units q),
                      quotes := (quotes L)(quoteId \<mapsto> q\<lparr>state := Confirmed\<rparr>)\<rparr>))"

text \<open>
  Modelled from the spec: the ScoringParameters of the data model, missing from the
  sources; \<open>K\<close> is the curve steepness \<open>k\<close>.
\<close>

record scoring_parameters =
  radiusM :: real
  t0Min :: real
  d0M :: real
  maxDiscount :: real
  K :: real
  sMin :: real
  minSoloUnits :: nat
  baseDeliveryFeeCents :: int
  minDeliveryFeeCents :: int

text \<open>
  Modelled from the spec: the weight of a candidate neighbour in the Score and Discount
  Calculator, which is missing from the sources. A neighbour is a pair of distance and
  time gap in minutes; its weight is \<open>exp(-distance / d0M) * exp(-timeGapMinutes / t0Min)\<close>.
\<close>

definition weight :: "scoring_parameters \<Rightarrow> real \<times> real \<Rightarrow> real" where
  "weight p n = exp (- fst n / d0M p) * exp (- snd n / t0Min p)"

text \<open>
  Modelled from the spec: the score of the missing calculator, the sum of the weights,
  zero when there is no neighbour.
\<close>

definition score :: "scoring_parameters \<Rightarrow> (real \<times> real) list \<Rightarrow> real" where
  "score p ns = sum_list (map (weight p) ns)"

text \<open>
  Modelled from the spec: the clamp of the missing calculator, which brings a value into
  \<open>[lo, hi]\<close>.
\<close>

definition clamp :: "real \<Rightarrow> real \<Rightarrow> real \<Rightarrow> real" where
  "clamp lo hi x = max lo (min hi x)"

text \<open>
  Modelled from the spec: the discount percentage of the missing calculator,
  \<open>maxDiscount * (1 - exp(-k * score))\<close> clamped to \<open>[0, maxDiscount]\<close>.
\<close>

definition discountPct :: "scoring_parameters \<Rightarrow> (real \<times> real) list \<Rightarrow> real" where
  "discountPct p ns = clamp 0 (maxDiscount p) (maxDiscount p * (1 - exp (- K p * score p ns)))"

section \<open>Sample inputs\<close>

subsection \<open>A platform and three servers\<close>

text \<open>
  The platform functions at the arguments the examples use: the ISO form of two instants
  three days apart, \<open>encodeURIComponent\<close> on ASCII text, the string form of three
  values, and \<open>JSON.parse\<close> on three bodies of the API (any other text of the examples
  is not JSON).
\<close>

definition sample_toISOString :: "int \<Rightarrow> string" where
  "sample_toISOString t =
     (if t = 1762000000000 then ''2025-11-01T12:26:40.000Z''
      else if t = 1762259200000 then ''2025-11-04T12:26:40.000Z''
      else [])"

definition unreserved :: "char \<Rightarrow> bool" where
  "unreserved c =
     (let n = (of_char c :: nat)
      in (48 \<le> n \<and> n \<le> 57) \<or> (65 \<le> n \<and> n \<le> 90) \<or> (97 \<le> n \<and> n \<le> 122)
         \<or> c \<in> set ''-_.!~*()'' \<or> n = 39)"

definition hex_digit :: "nat \<Rightarrow> char" where
  "hex_digit n = ''0123456789ABCDEF'' ! (n mod 16)"

definition sample_encodeURIComponent :: "string \<Rightarrow> string" where
  "sample_encodeURIComponent s =
     concat (map (\<lambda>c. if unreserved c then [c]
                        else [CHR ''%'', hex_digit (of_char c div 16), hex_digit (of_char c)]) s)"

definition sample_toStr :: "jsval \<Rightarrow> string" where
  "sample_toStr v =
     (case v of
        JStr s \<Rightarrow> s
      | JNum r \<Rightarrow> (if r = 60.1699 then ''60.1699'' else if r = 24.9384 then ''24.9384'' else [])
      | _ \<Rightarrow> [])"

definition quote_body_text :: string where
  \<open>quote_body_text = ''{"quoteId":"q_1"}''\<close>

definition solo_body_text :: string where
  \<open>solo_body_text =
     ''{"detail":{"error":"SOLO_MIN_UNITS_REQUIRED","message":"Add at least 6 items.","soloMinUnits":6}}''\<close>

definition not_found_body_text :: string where
  \<open>not_found_body_text = ''{"detail":"Quote not found"}''\<close>

definition sample_parse :: "string \<Rightarrow> jsval outcome" where
  "sample_parse txt =
     (if txt = quote_body_text then Inr (JObj [(''quoteId'', JStr ''q_1'')])
      else if txt = solo_body_text then
        Inr (JObj [(''detail'',
               JObj [(''error'', JStr ''SOLO_MIN_UNITS_REQUIRED''),
                     (''message'', JStr ''Add at least 6 items.''),
                     (''soloMinUnits'', JNum 6)])])
      else if txt = not_found_body_text then
        Inr (JObj [(''detail'', JStr ''Quote not found'')])
      else Inl ''Unexpected token'')"

definition sample_nullPropertyMessage :: "string \<Rightarrow> string" where
  "sample_nullPropertyMessage k = ''Cannot read properties of null''"

definition sample_platform :: platform where
  "sample_platform =
     \<lparr>API_BASE = ''http://localhost:8020'', toISOString = sample_toISOString,
      encodeURIComponent = sample_encodeURIComponent, toStr = sample_toStr,
      jsonParse = sample_parse, nullPropertyMessage = sample_nullPropertyMessage\<rparr>"

text \<open>
  A state with a cart, and three servers: one that cannot be reached, one that answers
  the quote request with a quote and every other request with status 404 and a
  not-found body, and one that answers the quote request with status 400 and the
  solo-minimum body and every other request with that 404.
\<close>

definition state_with_cart :: app_state where
  "state_with_cart = initial_state\<lparr>step := 3, cartId := JStr ''c_1''\<rparr>"

definition net_unreachable :: net where
  "net_unreachable r = Inl ''Failed to fetch''"

definition not_found_response :: "jsval response" where
  "not_found_response =
     \<lparr>ok = False, body_text = Inr not_found_body_text,
      body_json = sample_parse not_found_body_text\<rparr>"

definition net_payment_refused :: net where
  "net_payment_refused r =
     (if url r = ''http://localhost:8020/checkout/quote''
      then Inr \<lparr>ok = True, body_text = Inr quote_body_text,
                body_json = sample_parse quote_body_text\<rparr>
      else Inr not_found_response)"


subsection \<open>A ledger and scoring parameters\<close>

definition sample_quote :: quote_rec where
  "sample_quote =
     \<lparr>ofCart = ''c_1'', ofSlot = ''sl_abc'', ofLocation = ''loc_1'',
      quoted = \<lparr>subtotalCents = 950, deliveryFeeCents = 396, discountCents = 54,
                totalCents = 1346\<rparr>,
      lockedUntil = 1762000900000, state = Pending\<rparr>"

definition sample_ledger :: ledger where
  "sample_ledger = \<lparr>quotes = [''q_1'' \<mapsto> sample_quote], used = (\<lambda>s. 0)(''sl_abc'' := 8)\<rparr>"

definition one_per_order :: "quote_rec \<Rightarrow> nat" where
  "one_per_order q = 1"

definition sample_parameters :: scoring_parameters where
  "sample_parameters =
     \<lparr>radiusM = 3000, t0Min = 30, d0M = 800, maxDiscount = 0.2, K = 1, sMin = 0.05,
      minSoloUnits = 6, baseDeliveryFeeCents = 450, minDeliveryFeeCents = 0\<rparr>"

section \<open>Properties of the admin console\<close>

lemma set_fold_set_add: "set (fold set_add xs acc) = set acc \<union> set xs"
  by (induction xs arbitrary: acc) (auto simp: set_add_def set_has_def)

lemma distinct_fold_set_add: "distinct acc \<Longrightarrow> distinct (fold set_add xs acc)"
  by (induction xs arbitrary: acc) (auto simp: set_add_def set_has_def)

lemma set_new_Set: "set (new_Set xs) = set xs"
  by (simp add: new_Set_def set_fold_set_add)

lemma distinct_new_Set: "distinct (new_Set xs)"
  by (simp add: new_Set_def distinct_fold_set_add)

lemma valid_days_sort:
  "distinct xs \<Longrightarrow> list_all (\<lambda>d. 1 \<le> d \<and> d \<le> 7) xs \<Longrightarrow> valid_days (sort xs)"
  by (simp add: valid_days_def list_all_iff)

lemma toggled_days:
  assumes "valid_days ds" and "1 \<le> d" and "d \<le> 7"
  defines "cur \<equiv> new_Set ds"
  defines "ds' \<equiv> sort (if set_has cur d then set_delete d cur else set_add d cur)"
  shows "valid_days ds'"
    and "set ds' = (if d \<in> set ds then set ds - {d} else insert d (set ds))"
proof -
  have dist: "distinct cur" and st: "set cur = set ds"
    by (simp_all add: cur_def distinct_new_Set set_new_Set)
  have rng: "list_all (\<lambda>d. 1 \<le> d \<and> d \<le> 7) cur"
    using assms(1) st by (simp add: valid_days_def list_all_iff)
  show "valid_days ds'"
    unfolding ds'_def using dist rng assms(2,3)
    by (auto intro!: valid_days_sort simp: set_has_def set_delete_def set_add_def list_all_iff distinct_removeAll)
  show "set ds' = (if d \<in> set ds then set ds - {d} else insert d (set ds))"
    unfolding ds'_def using st
    by (auto simp: set_has_def set_delete_def set_add_def)
qed

text \<open>
  C7. In a settings object whose windows all have a valid \<open>daysOfWeek\<close>, toggling a
  day of the weekday table in the window at \<open>index\<close> succeeds and keeps every window
  valid: the day is removed if it was present and added if it was absent, and everything
  else stays as it was.
\<close>

theorem toggleDay_keeps_days_valid:
  assumes av: "p ''availability'' = Some (Windows ws)"
    and inv: "list_all (\<lambda>w. valid_days (daysOfWeek w)) ws"
    and idx: "index < length ws"
    and day: "dayValue \<in> set (map fst weekdayMap)"
  shows "\<exists>ws'. toggleDay index dayValue (Some p) = Inr (p(''availability'' \<mapsto> Windows ws'))
           \<and> length ws' = length ws
           \<and> list_all (\<lambda>w. valid_days (daysOfWeek w)) ws'
           \<and> set (daysOfWeek (ws' ! index)) =
               (if dayValue \<in> set (daysOfWeek (ws ! index))
                then set (daysOfWeek (ws ! index)) - {dayValue}
                else insert dayValue (set (daysOfWeek (ws ! index))))
           \<and> startTime (ws' ! index) = startTime (ws ! index)
           \<and> endTime (ws' ! index) = endTime (ws ! index)
           \<and> (\<forall>j < length ws. j \<noteq> index \<longrightarrow> ws' ! j = ws ! j)"
proof -
  define old where "old = daysOfWeek (ws ! index)"
  define new where
    "new = sort (if set_has (new_Set old) dayValue then set_delete dayValue (new_Set old)
                 else set_add dayValue (new_Set old))"
  define ws' where "ws' = ws[index := (ws ! index)\<lparr>daysOfWeek := new\<rparr>]"
  have d17: "1 \<le> dayValue" "dayValue \<le> 7"
    using day by (auto simp: weekdayMap_def)
  have old_ok: "valid_days old"
    using inv idx by (simp add: old_def list_all_length)
  have new_ok: "valid_days new"
    and new_set: "set new = (if dayValue \<in> set old then set old - {dayValue} else insert dayValue (set old))"
    unfolding new_def using toggled_days [OF old_ok d17] by simp_all
  have res: "toggleDay index dayValue (Some p) = Inr (p(''availability'' \<mapsto> Windows ws'))"
    using av idx by (simp add: toggleDay_def Let_def ws'_def new_def old_def)
  have all': "list_all (\<lambda>w. valid_days (daysOfWeek w)) ws'"
    using inv new_ok idx by (auto simp: ws'_def list_all_length nth_list_update)
  show ?thesis
    using res all' new_set idx
    by (intro exI [of _ ws']) (simp add: ws'_def old_def)
qed


theorem toggleDay_keeps_days_valid_witness:
  "[''availability'' \<mapsto> Windows [\<lparr>daysOfWeek = [1, 2, 3, 4, 5], startTime = ''13:00'', endTime = ''17:00''\<rparr>]]
       ''availability''
     = Some (Windows [\<lparr>daysOfWeek = [1, 2, 3, 4, 5], startTime = ''13:00'', endTime = ''17:00''\<rparr>])
   \<and> list_all (\<lambda>w. valid_days (daysOfWeek w))
        [\<lparr>daysOfWeek = [1, 2, 3, 4, 5], startTime = ''13:00'', endTime = ''17:00''\<rparr>]
   \<and> (0::nat) < length [\<lparr>daysOfWeek = [1, 2, 3, 4, 5], startTime = ''13:00'', endTime = ''17:00''\<rparr>]
   \<and> (3::int) \<in> set (map fst weekdayMap)
   \<and> toggleDay 0 3
        (Some [''availability'' \<mapsto>
           Windows [\<lparr>daysOfWeek = [1, 2, 3, 4, 5], startTime = ''13:00'', endTime = ''17:00''\<rparr>]])
       = Inr ([''availability'' \<mapsto>
           Windows [\<lparr>daysOfWeek = [1, 2, 4, 5], startTime = ''13:00'', endTime = ''17:00''\<rparr>]])"
proof -
  let ?w = "\<lparr>daysOfWeek = [1, 2, 3, 4, 5], startTime = ''13:00'', endTime = ''17:00''\<rparr>"
  let ?p = "[''availability'' \<mapsto> Windows [?w]]"
  have h1: "?p ''availability'' = Some (Windows [?w])" by simp
  have h2: "list_all (\<lambda>w. valid_days (daysOfWeek w)) [?w]" by (simp add: valid_days_def)
  have h3: "(0::nat) < length [?w]" by simp
  have h4: "(3::int) \<in> set (map fst weekdayMap)" by (simp add: weekdayMap_def)
  from toggleDay_keeps_days_valid [of ?p "[?w]" 0 3, OF h1 h2 h3 h4]
  obtain ws' where r: "toggleDay 0 3 (Some ?p) = Inr (?p(''availability'' \<mapsto> Windows ws'))"
    by blast
  have "toggleDay 0 3 (Some ?p) = Inr ([''availability'' \<mapsto>
           Windows [\<lparr>daysOfWeek = [1, 2, 4, 5], startTime = ''13:00'', endTime = ''17:00''\<rparr>]])"
    by (simp add: toggleDay_def new_Set_def set_add_def set_has_def set_delete_def)
  with h1 h2 h3 h4 r show ?thesis by simp
qed

lemma toggleDay_out_of_range:
  "p ''availability'' = Some (Windows ws) \<Longrightarrow> length ws \<le> index \<Longrightarrow>
   toggleDay index dayValue (Some p) = Inl TypeError"
  by (simp add: toggleDay_def)

text \<open>
  C8. With settings loaded, \<open>saveSettings\<close> sends one PUT request. If the request is
  rejected or its response is not OK, the state afterwards differs from the state before
  only in the saving flag, the error text and the toast; the settings object changes only
  when an OK response delivers a body, and then it is that body.
\<close>

theorem saveSettings_replaces_settings_on_success_only:
  fixes net :: "settings request \<Rightarrow> (settings option) response outcome"
  assumes cur: "settings st = Some s"
  shows "fst (saveSettings api net st) = [put_settings api s]
    \<and> ((\<exists>e. net (put_settings api s) = Inl e)
           \<or> (\<exists>res. net (put_settings api s) = Inr res \<and> \<not> ok res) \<longrightarrow>
         snd (saveSettings api net st) =
           st\<lparr>saving := False, error := Some ''Failed to save settings'',
              toast := Some \<lparr>msg = JStr (''Failed to save settings '' @ [CHR 0xE2, CHR 0x9D, CHR 0x8C]),
                             type = TypeName ''error''\<rparr>\<rparr>)
    \<and> (\<forall>res data. net (put_settings api s) = Inr res \<and> ok res \<and> body_json res = Inr data \<longrightarrow>
         settings (snd (saveSettings api net st)) = data)
    \<and> (settings (snd (saveSettings api net st)) \<noteq> settings st \<longrightarrow>
         (\<exists>res. net (put_settings api s) = Inr res \<and> ok res
            \<and> body_json res = Inr (settings (snd (saveSettings api net st)))))"
  using cur
  by (auto simp: saveSettings_def saveSettings_try_def showToast_def Let_def
           split: sum.splits if_splits)

theorem saveSettings_replaces_settings_on_success_only_witness:
  "settings \<lparr>loading = False, toast = None, settings = Some [''k'' \<mapsto> Scalar (JStr [])],
             saving = False, error = None\<rparr>
     = Some [''k'' \<mapsto> Scalar (JStr [])]
   \<and> snd (saveSettings ''http://localhost:8020'' (\<lambda>r. Inl ''Failed to fetch'')
          \<lparr>loading = False, toast = None, settings = Some [''k'' \<mapsto> Scalar (JStr [])],
           saving = False, error = None\<rparr>)
     = \<lparr>loading = False,
        toast = Some \<lparr>msg = JStr (''Failed to save settings '' @ [CHR 0xE2, CHR 0x9D, CHR 0x8C]),
                      type = TypeName ''error''\<rparr>,
        settings = Some [''k'' \<mapsto> Scalar (JStr [])],
        saving = False, error = Some ''Failed to save settings''\<rparr>"
proof -
  let ?s = "[''k'' \<mapsto> Scalar (JStr [])]"
  let ?st = "\<lparr>loading = False, toast = None, settings = Some ?s, saving = False, error = None\<rparr>"
  have h: "settings ?st = Some ?s" by simp
  show ?thesis
    using saveSettings_replaces_settings_on_success_only
            [of ?st ?s "''http://localhost:8020''" "\<lambda>r. Inl ''Failed to fetch''", OF h]
    by simp
qed

lemma saveSettings_without_settings:
  "settings st = None \<Longrightarrow> saveSettings api net st = ([], st)"
  by (simp add: saveSettings_def)

text \<open>
  C10. Clearing a numeric field stores the empty string, which is not a number, under
  that field, and the next \<open>saveSettings\<close> puts it into the body of its PUT request;
  any other input stores \<open>Number(value)\<close>; no other property changes.
\<close>

theorem updateNumber_stores:
  "updateNumber Number field [] prev field = Some (Scalar (JStr []))
   \<and> \<not> is_number (JStr [])
   \<and> (val \<noteq> [] \<longrightarrow> updateNumber Number field val prev field = Some (Scalar (Number val)))
   \<and> (other \<noteq> field \<longrightarrow> updateNumber Number field val prev other = spread prev other)
   \<and> (\<exists>b. map body (fst (saveSettings api net
               (st\<lparr>settings := Some (updateNumber Number field [] prev)\<rparr>))) = [Some b]
          \<and> b field = Some (Scalar (JStr [])))"
  by (simp add: updateNumber_def saveSettings_def put_settings_def Let_def)

theorem updateNumber_stores_witness:
  "''12'' \<noteq> [] \<and> ''maxDiscount'' \<noteq> ''k''
   \<and> updateNumber (\<lambda>v. if v = ''12'' then JNum 12 else JNaN) ''k'' ''12''
         (Some [''maxDiscount'' \<mapsto> Scalar (JNum 0.2)]) ''k'' = Some (Scalar (JNum 12))
   \<and> updateNumber (\<lambda>v. if v = ''12'' then JNum 12 else JNaN) ''k'' ''12''
         (Some [''maxDiscount'' \<mapsto> Scalar (JNum 0.2)]) ''maxDiscount'' = Some (Scalar (JNum 0.2))
   \<and> updateNumber (\<lambda>v. if v = ''12'' then JNum 12 else JNaN) ''k'' []
         (Some [''maxDiscount'' \<mapsto> Scalar (JNum 0.2)]) ''k'' = Some (Scalar (JStr []))"
  using updateNumber_stores
          [of "\<lambda>v. if v = ''12'' then JNum 12 else JNaN" "''k''"
              "Some [''maxDiscount'' \<mapsto> Scalar (JNum 0.2)]" "''12''" "''maxDiscount''"]
  by (simp add: spread_def)

section \<open>Properties of the checkout flow\<close>

lemma fst_fetchSlots_try:
  "fst (fetchSlots_try P net rng st)
     = [\<lparr>url = slots_url P rng st, http_method = ''GET'', headers = [], body = None\<rparr>]"
  by (simp add: fetchSlots_try_def Let_def split: sum.splits)

lemma fst_fetchSlots:
  "truthy (cartId st) \<Longrightarrow>
   fst (fetchSlots P net rng st)
     = [\<lparr>url = slots_url P rng st, http_method = ''GET'', headers = [], body = None\<rparr>]"
proof -
  assume t: "truthy (cartId st)"
  obtain reqs st2 thrown
    where e: "fetchSlots_try P net rng (st\<lparr>loading := True\<rparr>) = (reqs, st2, thrown)"
    by (cases "fetchSlots_try P net rng (st\<lparr>loading := True\<rparr>)")
  have u: "slots_url P rng (st\<lparr>loading := True\<rparr>) = slots_url P rng st"
    by (simp add: slots_url_def)
  from fst_fetchSlots_try [of P net rng "st\<lparr>loading := True\<rparr>"] e u
  have "reqs = [\<lparr>url = slots_url P rng st, http_method = ''GET'', headers = [], body = None\<rparr>]"
    by simp
  with e t show ?thesis
    by (simp add: fetchSlots_def split: option.splits)
qed

text \<open>
  C5. Once the range has been computed at the instant \<open>now\<close>, its \<open>fromISO\<close> is the
  ISO form of \<open>now\<close> and its \<open>toISO\<close> the ISO form of \<open>now\<close> plus 3 times 86,400,000 ms,
  and every \<open>fetchSlots\<close> sends exactly one request, whose URL carries these two; without
  a cart it sends none.
\<close>

theorem fetchSlots_uses_three_day_range:
  assumes "valid_time now" and "valid_time (now + 3 * 86400000)"
  shows "\<exists>rng. App_range P now = Inr rng
           \<and> fromISO rng = toISOString P now
           \<and> toISO rng = toISOString P (now + 3 * 86400000)
           \<and> (\<forall>net st. truthy (cartId st) \<longrightarrow>
                 map url (fst (fetchSlots P net rng st)) =
                   [API_BASE P @ ''/delivery/slots?cartId='' @ toStr P (cartId st)
                      @ ''&lat='' @ toStr P (JNum (fst (pos st)))
                      @ ''&lon='' @ toStr P (JNum (snd (pos st)))
                      @ ''&fromISO='' @ encodeURIComponent P (toISOString P now)
                      @ ''&toISO='' @ encodeURIComponent P (toISOString P (now + 3 * 86400000))])
           \<and> (\<forall>net st. \<not> truthy (cartId st) \<longrightarrow> fst (fetchSlots P net rng st) = [])"
proof -
  let ?rng = "\<lparr>fromISO = toISOString P now, toISO = toISOString P (now + 3 * 86400000)\<rparr>"
  have "App_range P now = Inr ?rng"
    using assms by (simp add: App_range_def useNowIsoRange_def)
  moreover have "\<forall>net st. truthy (cartId st) \<longrightarrow>
      map url (fst (fetchSlots P net ?rng st)) =
        [API_BASE P @ ''/delivery/slots?cartId='' @ toStr P (cartId st)
           @ ''&lat='' @ toStr P (JNum (fst (pos st)))
           @ ''&lon='' @ toStr P (JNum (snd (pos st)))
           @ ''&fromISO='' @ encodeURIComponent P (toISOString P now)
           @ ''&toISO='' @ encodeURIComponent P (toISOString P (now + 3 * 86400000))]"
    by (simp add: fst_fetchSlots slots_url_def)
  moreover have "\<forall>net st. \<not> truthy (cartId st) \<longrightarrow> fst (fetchSlots P net ?rng st) = []"
    by (simp add: fetchSlots_def)
  ultimately show ?thesis
    by (intro exI [of _ ?rng]) simp
qed

theorem fetchSlots_uses_three_day_range_witness:
  "valid_time 1762000000000 \<and> valid_time (1762000000000 + 3 * 86400000)
   \<and> App_range sample_platform 1762000000000
       = Inr \<lparr>fromISO = ''2025-11-01T12:26:40.000Z'', toISO = ''2025-11-04T12:26:40.000Z''\<rparr>
   \<and> truthy (cartId state_with_cart)
   \<and> map url (fst (fetchSlots sample_platform net_unreachable
        \<lparr>fromISO = ''2025-11-01T12:26:40.000Z'', toISO = ''2025-11-04T12:26:40.000Z''\<rparr>
        state_with_cart))
       = [''http://localhost:8020/delivery/slots?cartId=c_1&lat=60.1699&lon=24.9384''
            @ ''&fromISO=2025-11-01T12%3A26%3A40.000Z&toISO=2025-11-04T12%3A26%3A40.000Z'']"
proof -
  have h1: "valid_time 1762000000000" and h2: "valid_time (1762000000000 + 3 * 86400000)"
    by (simp_all add: valid_time_def)
  have t: "truthy (cartId state_with_cart)"
    by (simp add: state_with_cart_def)
  have r: "App_range sample_platform 1762000000000
       = Inr \<lparr>fromISO = ''2025-11-01T12:26:40.000Z'', toISO = ''2025-11-04T12:26:40.000Z''\<rparr>"
    by (simp add: App_range_def useNowIsoRange_def valid_time_def sample_platform_def
          sample_toISOString_def)
  from fetchSlots_uses_three_day_range [OF h1 h2, of sample_platform] r
  have "map url (fst (fetchSlots sample_platform net_unreachable
        \<lparr>fromISO = ''2025-11-01T12:26:40.000Z'', toISO = ''2025-11-04T12:26:40.000Z''\<rparr>
        state_with_cart))
       = [API_BASE sample_platform @ ''/delivery/slots?cartId=''
            @ toStr sample_platform (cartId state_with_cart)
            @ ''&lat='' @ toStr sample_platform (JNum (fst (pos state_with_cart)))
            @ ''&lon='' @ toStr sample_platform (JNum (snd (pos state_with_cart)))
            @ ''&fromISO='' @ encodeURIComponent sample_platform (toISOString sample_platform 1762000000000)
            @ ''&toISO='' @ encodeURIComponent sample_platform
                 (toISOString sample_platform (1762000000000 + 3 * 86400000))]"
    using t by auto
  then show ?thesis
    using h1 h2 r t
    by (simp add: sample_platform_def sample_toISOString_def sample_encodeURIComponent_def
          unreserved_def hex_digit_def sample_toStr_def state_with_cart_def initial_state_def)
qed

text \<open>
  C6. For a slot whose \<open>requiresSoloMinUnits\<close> is a boolean, the card shows the hint
  exactly when the flag is true, and the hint then states the slot's own
  \<open>soloMinUnits\<close>; when the flag is false nothing is shown in its place.
\<close>

theorem slot_hint_follows_flag:
  assumes "get s ''requiresSoloMinUnits'' = JBool b"
  shows "slot_hint P s =
           Inr (if b then [Elem ''div'' ''warn''
                            [Text ''No nearby deliveries. Minimum '',
                             Expr (get s ''soloMinUnits''),
                             Text '' units for this slot.'']]
                else [])"
proof -
  have "\<not> nullish s"
    using assms by (auto simp: nullish_def)
  then show ?thesis
    using assms by (simp add: slot_hint_def member_def)
qed

theorem slot_hint_follows_flag_witness:
  "get (JObj [(''slotId'', JStr ''sl_xyz''), (''requiresSoloMinUnits'', JBool True),
              (''soloMinUnits'', JNum 6)]) ''requiresSoloMinUnits'' = JBool True
   \<and> slot_hint sample_platform
        (JObj [(''slotId'', JStr ''sl_xyz''), (''requiresSoloMinUnits'', JBool True),
               (''soloMinUnits'', JNum 6)])
       = Inr [Elem ''div'' ''warn''
               [Text ''No nearby deliveries. Minimum '', Expr (JNum 6),
                Text '' units for this slot.'']]"
proof -
  let ?s = "JObj [(''slotId'', JStr ''sl_xyz''), (''requiresSoloMinUnits'', JBool True),
                  (''soloMinUnits'', JNum 6)]"
  have h: "get ?s ''requiresSoloMinUnits'' = JBool True" by simp
  show ?thesis
    using h slot_hint_follows_flag [OF h, of sample_platform] by simp
qed

lemma quoteAndPay_try_requests:
  "\<exists>rest. fst (quoteAndPay_try P net slotId st) =
            post_json P ''/checkout/quote''
              (JObj [(''cartId'', cartId st), (''slotId'', slotId),
                     (''lat'', JNum (fst (pos st))), (''lon'', JNum (snd (pos st)))]) # rest
          \<and> (\<forall>r \<in> set rest. url r = API_BASE P @ ''/payments/create''
                              \<or> url r = API_BASE P @ ''/webhooks/payment'')"
  by (simp add: quoteAndPay_try_def Let_def post_json_def split: sum.splits)

lemma quoteAndPay_unfold:
  assumes "truthy (cartId st)"
    and "quoteAndPay_try P net slotId (st\<lparr>loading := True\<rparr>) = (reqs, st2, thrown)"
  shows "quoteAndPay P net slotId st =
           (reqs, (case thrown of None \<Rightarrow> st2 | Some e \<Rightarrow> quoteAndPay_catch P e st2)
                    \<lparr>loading := False\<rparr>)"
  using assms by (simp add: quoteAndPay_def split: option.splits)

lemma quoteAndPay_without_cart:
  "\<not> truthy (cartId st) \<Longrightarrow>
   quoteAndPay P net slotId st =
     ([], notify (JStr ''Create a cart first.'') (TypeName ''error'') st)"
  by (simp add: quoteAndPay_def)

text \<open>
  C3, as the code has it. The first request of \<open>quoteAndPay\<close> is the POST to
  \<open>/checkout/quote\<close>, built from the object with exactly the properties \<open>cartId\<close>,
  \<open>slotId\<close>, \<open>lat\<close> and \<open>lon\<close>: the cart id, the chosen slot id and the coordinates
  of the map pin. Every later request goes to \<open>/payments/create\<close> or
  \<open>/webhooks/payment\<close>, so no location is resolved and no \<open>locationId\<close> is sent.
\<close>

theorem quoteAndPay_quote_request_fields:
  assumes "truthy (cartId st)"
  shows "\<exists>rest. fst (quoteAndPay P net slotId st) =
            \<lparr>url = API_BASE P @ ''/checkout/quote'', http_method = ''POST'',
             headers = [(''Content-Type'', ''application/json'')],
             body = Some (JObj [(''cartId'', cartId st), (''slotId'', slotId),
                                (''lat'', JNum (fst (pos st))), (''lon'', JNum (snd (pos st)))])\<rparr>
              # rest
          \<and> (\<forall>r \<in> set rest. url r = API_BASE P @ ''/payments/create''
                              \<or> url r = API_BASE P @ ''/webhooks/payment'')"
proof -
  obtain reqs st2 thrown
    where e: "quoteAndPay_try P net slotId (st\<lparr>loading := True\<rparr>) = (reqs, st2, thrown)"
    by (cases "quoteAndPay_try P net slotId (st\<lparr>loading := True\<rparr>)")
  from quoteAndPay_try_requests [of P net slotId "st\<lparr>loading := True\<rparr>"] e
  obtain rest where
    "reqs = post_json P ''/checkout/quote''
              (JObj [(''cartId'', cartId st), (''slotId'', slotId),
                     (''lat'', JNum (fst (pos st))), (''lon'', JNum (snd (pos st)))]) # rest"
    and "\<forall>r \<in> set rest. url r = API_BASE P @ ''/payments/create''
                         \<or> url r = API_BASE P @ ''/webhooks/payment''"
    by auto
  then show ?thesis
    using quoteAndPay_unfold [OF assms e] by (simp add: post_json_def)
qed

theorem quoteAndPay_quote_request_fields_witness:
  "truthy (cartId state_with_cart)
   \<and> map field_names (fst (quoteAndPay sample_platform net_payment_refused (JStr ''sl_1'')
                              state_with_cart))
       = [[''cartId'', ''slotId'', ''lat'', ''lon''], [''quoteId'']]"
proof -
  have t: "truthy (cartId state_with_cart)"
    by (simp add: state_with_cart_def)
  from quoteAndPay_quote_request_fields
         [OF t, of sample_platform net_payment_refused "JStr ''sl_1''"]
  have "field_names (hd (fst (quoteAndPay sample_platform net_payment_refused (JStr ''sl_1'')
                                state_with_cart)))
          = [''cartId'', ''slotId'', ''lat'', ''lon'']"
    by (auto simp: field_names_def)
  moreover have "map field_names (tl (fst (quoteAndPay sample_platform net_payment_refused
                    (JStr ''sl_1'') state_with_cart))) = [[''quoteId'']]"
    by (simp add: quoteAndPay_def quoteAndPay_try_def post_json_def Let_def field_names_def
          state_with_cart_def initial_state_def sample_platform_def net_payment_refused_def
          sample_parse_def quote_body_text_def solo_body_text_def not_found_body_text_def
          not_found_response_def member_def nullish_def error_text_def)
  moreover have "fst (quoteAndPay sample_platform net_payment_refused (JStr ''sl_1'')
                    state_with_cart) \<noteq> []"
    using quoteAndPay_quote_request_fields
         [OF t, of sample_platform net_payment_refused "JStr ''sl_1''"] by auto
  ultimately show ?thesis
    using t
    by (cases "fst (quoteAndPay sample_platform net_payment_refused (JStr ''sl_1'')
                 state_with_cart)") simp_all
qed

text \<open>
  C3, as the claim states it, fails: the quote request of a concrete run has the
  properties \<open>cartId\<close>, \<open>slotId\<close>, \<open>lat\<close> and \<open>lon\<close>, and no \<open>locationId\<close>.
\<close>

theorem quote_request_carries_no_locationId:
  "map url (fst (quoteAndPay sample_platform net_unreachable (JStr ''sl_1'') state_with_cart))
     = [''http://localhost:8020/checkout/quote'']
   \<and> map field_names
        (fst (quoteAndPay sample_platform net_unreachable (JStr ''sl_1'') state_with_cart))
     = [[''cartId'', ''slotId'', ''lat'', ''lon'']]
   \<and> ''locationId'' \<notin> set (concat (map field_names
        (fst (quoteAndPay sample_platform net_unreachable (JStr ''sl_1'') state_with_cart))))"
  by (simp add: quoteAndPay_def quoteAndPay_try_def post_json_def Let_def field_names_def
        state_with_cart_def initial_state_def sample_platform_def net_unreachable_def)










subsection \<open>Cart creation and the quantity editors\<close>

lemma cart_lines_positive:
  "(p, q) \<in> set (cart_lines its) \<Longrightarrow> (\<exists>n. q = Qty n \<and> 1 \<le> n) \<or> q = QInf"
  by (cases q) (auto simp: cart_lines_def)

lemma cart_body_quantities:
  "\<exists>ls. cart_body its = JObj [(''items'', JArr ls)]
        \<and> (\<forall>l \<in> set ls. \<exists>p v. l = JObj [(''productId'', JStr p), (''qty'', v)]
                 \<and> (v = JPosInf \<or> (\<exists>n. v = JNum (of_int n) \<and> 1 \<le> n)))"
proof -
  have "\<exists>p v. (case l of (productId, q) \<Rightarrow>
                  JObj [(''productId'', JStr productId), (''qty'', js_of_qty q)])
                = JObj [(''productId'', JStr p), (''qty'', v)]
              \<and> (v = JPosInf \<or> (\<exists>n. v = JNum (of_int n) \<and> 1 \<le> n))"
    if "l \<in> set (cart_lines its)" for l
  proof (cases l)
    case (Pair p q)
    with that cart_lines_positive [of p q its] show ?thesis
      by auto
  qed
  then show ?thesis
    by (auto simp: cart_body_def)
qed

lemma fst_createCart_try:
  "fst (createCart_try P net st) = [post_json P ''/cart'' (cart_body (items st))]"
  by (simp add: createCart_try_def Let_def split: sum.splits)

lemma createCart_requests:
  "fst (createCart P net st) =
     (if cart_lines (items st) = [] then []
      else [post_json P ''/cart'' (cart_body (items st))])"
proof -
  obtain reqs st2 thrown
    where e: "createCart_try P net (st\<lparr>loading := True\<rparr>) = (reqs, st2, thrown)"
    by (cases "createCart_try P net (st\<lparr>loading := True\<rparr>)")
  with fst_createCart_try [of P net "st\<lparr>loading := True\<rparr>"]
  have "reqs = [post_json P ''/cart'' (cart_body (items st))]"
    by simp
  with e show ?thesis
    by (simp add: createCart_def Let_def split: option.splits)
qed

lemma round_double_small: "\<bar>n\<bar> < 2 ^ 53 \<Longrightarrow> round_double n = Qty n"
  by (simp add: round_double_def)

lemma round_double_2_53: "round_double 9007199254740992 = Qty 9007199254740992"
  by code_simp

lemma update_keeps:
  "Q v \<Longrightarrow> list_all Q (map snd s) \<Longrightarrow> list_all Q (map snd (AList.update pid v s))"
  by (induction s) auto

lemma or0_safe:
  assumes "list_all safe_count (map snd s)"
  shows "\<exists>n. or0 (map_of s pid) = Qty n \<and> 0 \<le> n \<and> n < 2 ^ 53"
proof (cases "map_of s pid")
  case None
  then show ?thesis by simp
next
  case (Some q)
  with assms have "safe_count q"
    by (force simp: list_all_iff dest: map_of_SomeD)
  with Some show ?thesis by (cases q) simp_all
qed

lemma minus_click_keeps_safe:
  assumes "list_all safe_count (map snd s)"
  shows "list_all safe_count (map snd (minus_click pid s))"
proof -
  from or0_safe [OF assms, of pid]
  obtain n where n: "or0 (map_of s pid) = Qty n" "0 \<le> n" "n < 2 ^ 53"
    by blast
  then have "add_literal (or0 (map_of s pid)) (- 1) = Qty (n - 1)"
    by (simp add: round_double_small)
  with n have "safe_count (Math_max0 (add_literal (or0 (map_of s pid)) (- 1)))"
    by simp
  with assms show ?thesis
    by (simp add: minus_click_def update_keeps)
qed

lemma plus_click_keeps_nonneg:
  assumes "list_all safe_count (map snd s)"
  shows "list_all nonneg_int (map snd (plus_click pid s))"
proof -
  from or0_safe [OF assms, of pid]
  obtain n where n: "or0 (map_of s pid) = Qty n" "0 \<le> n" "n < 2 ^ 53"
    by blast
  have "round_double (n + 1) = Qty (n + 1)"
  proof (cases "n + 1 < 2 ^ 53")
    case True
    with n show ?thesis by (simp add: round_double_small)
  next
    case False
    with n have "n + 1 = 9007199254740992" by simp
    then show ?thesis by (simp add: round_double_2_53)
  qed
  with n have v: "nonneg_int (add_literal (or0 (map_of s pid)) 1)"
    by simp
  have "nonneg_int q" if "safe_count q" for q
    using that by (cases q) simp_all
  with assms have "list_all nonneg_int (map snd s)"
    by (simp add: list_all_iff)
  with v show ?thesis
    by (simp add: plus_click_def update_keeps)
qed

lemma input_change_keeps_nonneg:
  assumes "parseInt (if target_value = [] then ''0'' else target_value) \<noteq> QNaN"
    and "parseInt (if target_value = [] then ''0'' else target_value) \<noteq> QInf"
    and "list_all nonneg_int (map snd s)"
  shows "list_all nonneg_int (map snd (input_change pid target_value s))"
  using assms
  by (cases "parseInt (if target_value = [] then ''0'' else target_value)")
     (simp_all add: input_change_def update_keeps)

text \<open>
  C9. The number input of a product row can receive \<open>.5\<close>, a valid value of an input of
  type number. \<open>parseInt\<close> finds no digit before the point and gives \<open>NaN\<close>, which
  \<open>Math.max(0, NaN)\<close> keeps: the quantity of that product is then not a non-negative
  integer, although every quantity was one before.
\<close>

theorem input_change_stores_NaN:
  "list_all nonneg_int (map snd initial_items)
   \<and> input_change ''p_1'' ''.5'' initial_items
       = [(''p_1'', QNaN), (''p_2'', Qty 1), (''p_3'', Qty 0)]
   \<and> \<not> list_all nonneg_int (map snd (input_change ''p_1'' ''.5'' initial_items))"
  by (simp add: initial_items_def input_change_def parseInt_def is_white_def is_digit_def)

section \<open>Properties of the engine operations\<close>

text \<open>
  C1. Confirming an unknown id fails with NotFound, on every ledger. Confirming a
  confirmed quote succeeds and changes nothing. Confirming a pending quote succeeds, adds
  the amount of one confirmation to the \<open>used\<close> capacity of the quote's slot and to no
  other, and leaves the quote confirmed and every other quote as it was; confirming it
  again succeeds and changes nothing, so that after two confirmations the capacity has
  grown once.
\<close>

theorem confirm_idempotent:
  "(quotes L quoteId = None \<longrightarrow> confirm units quoteId L = Inl NotFound)
   \<and> (\<forall>q. quotes L quoteId = Some q \<and> state q = Confirmed \<longrightarrow>
         confirm units quoteId L = Inr L)
   \<and> (\<forall>q. quotes L quoteId = Some q \<and> state q = Pending \<longrightarrow>
         (\<exists>L1. confirm units quoteId L = Inr L1
            \<and> used L1 (ofSlot q) = used L (ofSlot q) + units q
            \<and> (\<forall>s. s \<noteq> ofSlot q \<longrightarrow> used L1 s = used L s)
            \<and> quotes L1 quoteId = Some (q\<lparr>state := Confirmed\<rparr>)
            \<and> (\<forall>other. other \<noteq> quoteId \<longrightarrow> quotes L1 other = quotes L other)
            \<and> confirm units quoteId L1 = Inr L1))"
  by (simp add: confirm_def)

theorem confirm_idempotent_witness:
  "quotes sample_ledger ''q_1'' = Some sample_quote \<and> state sample_quote = Pending
   \<and> confirm one_per_order ''q_1'' sample_ledger
       = Inr (sample_ledger\<lparr>used := (used sample_ledger)(''sl_abc'' := 9),
                quotes := [''q_1'' \<mapsto> sample_quote\<lparr>state := Confirmed\<rparr>]\<rparr>)
   \<and> confirm one_per_order ''q_1''
        (sample_ledger\<lparr>used := (used sample_ledger)(''sl_abc'' := 9),
           quotes := [''q_1'' \<mapsto> sample_quote\<lparr>state := Confirmed\<rparr>]\<rparr>)
       = Inr (sample_ledger\<lparr>used := (used sample_ledger)(''sl_abc'' := 9),
                quotes := [''q_1'' \<mapsto> sample_quote\<lparr>state := Confirmed\<rparr>]\<rparr>)
   \<and> quotes sample_ledger ''q_2'' = None
   \<and> confirm one_per_order ''q_2'' sample_ledger = Inl NotFound"
proof -
  have h1: "quotes sample_ledger ''q_1'' = Some sample_quote"
    by (simp add: sample_ledger_def)
  have h2: "state sample_quote = Pending"
    by (simp add: sample_quote_def)
  have first: "confirm one_per_order ''q_1'' sample_ledger
       = Inr (sample_ledger\<lparr>used := (used sample_ledger)(''sl_abc'' := 9),
                quotes := [''q_1'' \<mapsto> sample_quote\<lparr>state := Confirmed\<rparr>]\<rparr>)"
    by (simp add: confirm_def sample_ledger_def sample_quote_def one_per_order_def)
  have none: "quotes sample_ledger ''q_2'' = None"
    by (simp add: sample_ledger_def)
  from confirm_idempotent [of sample_ledger "''q_1''" one_per_order] h1 h2
  obtain L1 where "confirm one_per_order ''q_1'' sample_ledger = Inr L1"
    and "confirm one_per_order ''q_1'' L1 = Inr L1"
    by blast
  with first have again: "confirm one_per_order ''q_1''
        (sample_ledger\<lparr>used := (used sample_ledger)(''sl_abc'' := 9),
           quotes := [''q_1'' \<mapsto> sample_quote\<lparr>state := Confirmed\<rparr>]\<rparr>)
       = Inr (sample_ledger\<lparr>used := (used sample_ledger)(''sl_abc'' := 9),
                quotes := [''q_1'' \<mapsto> sample_quote\<lparr>state := Confirmed\<rparr>]\<rparr>)"
    by simp
  from confirm_idempotent [of sample_ledger "''q_2''" one_per_order] none
  have "confirm one_per_order ''q_2'' sample_ledger = Inl NotFound"
    by blast
  with h1 h2 first again none show ?thesis
    by simp
qed

lemma weight_nonneg: "0 \<le> weight p n"
  by (simp add: weight_def)

lemma score_nonneg: "0 \<le> score p ns"
  unfolding score_def by (rule sum_list_nonneg) (auto simp: weight_nonneg)

text \<open>
  C2. With a maximal discount that is not negative, the discount is
  \<open>maxDiscount * (1 - exp(-k * score))\<close> clamped to \<open>[0, maxDiscount]\<close>: it lies
  between 0 and \<open>maxDiscount\<close> for every list of neighbours, a score of 0 gives a
  discount of 0, and the score of no neighbours is 0.
\<close>

theorem discountPct_bounded:
  assumes "0 \<le> maxDiscount p"
  shows "discountPct p ns =
           max 0 (min (maxDiscount p) (maxDiscount p * (1 - exp (- K p * score p ns))))
     \<and> 0 \<le> discountPct p ns \<and> discountPct p ns \<le> maxDiscount p
     \<and> (score p ns = 0 \<longrightarrow> discountPct p ns = 0)
     \<and> score p [] = 0"
  using assms by (auto simp: discountPct_def clamp_def score_def)

theorem discountPct_bounded_witness:
  "0 \<le> maxDiscount sample_parameters \<and> score sample_parameters [] = 0
   \<and> discountPct sample_parameters [] = 0
   \<and> 0 \<le> discountPct sample_parameters [(200, 10)]
   \<and> discountPct sample_parameters [(200, 10)] \<le> 0.2"
proof -
  have h: "0 \<le> maxDiscount sample_parameters"
    by (simp add: sample_parameters_def)
  have m: "maxDiscount sample_parameters = 0.2"
    by (simp add: sample_parameters_def)
  from discountPct_bounded [OF h, of "[]"] discountPct_bounded [OF h, of "[(200, 10)]"]
  show ?thesis
    using h m by simp
qed

lemma discountPct_unclamped:
  assumes "0 \<le> maxDiscount p" and "0 \<le> K p"
  shows "discountPct p ns = maxDiscount p * (1 - exp (- K p * score p ns))"
proof -
  have "0 \<le> K p * score p ns"
    using assms(2) score_nonneg [of p ns] by simp
  then have e: "exp (- K p * score p ns) \<le> 1"
    by simp
  have pos: "0 < exp (- K p * score p ns)"
    by simp
  have lo: "0 \<le> maxDiscount p * (1 - exp (- K p * score p ns))"
    using assms(1) e by simp
  have hi: "maxDiscount p * (1 - exp (- K p * score p ns)) \<le> maxDiscount p"
    using assms(1) pos by (simp add: mult_left_le)
  show ?thesis
    using lo hi by (simp add: discountPct_def clamp_def)
qed

end
